theory Spec2Isabelle
  imports Complex_Main
begin

section \<open>Python strings and display objects\<close>

text \<open>
  A Python \<^verbatim>\<open>str\<close> is a sequence of Unicode code points: \<^verbatim>\<open>len\<close>, slicing and
  concatenation count code points, not bytes.  The program emits one non-ASCII code
  point, U+27E9 (the closing angle bracket of a ket), so a string is modelled as a list
  of code points and ASCII literals are embedded with \<open>S\<close>.
\<close>

type_synonym codepoint = nat
type_synonym pystr = "codepoint list"

definition S :: "string \<Rightarrow> pystr" where
  "S cs = map of_char cs"

definition ket :: codepoint where
  "ket = 10217"

definition backslash :: codepoint where
  "backslash = 92"

definition newline :: codepoint where
  "newline = 10"

text \<open>The exceptions the modelled code paths can raise.\<close>

datatype error = OverflowError | ValueError

text \<open>\<^verbatim>\<open>IPython.display.Math\<close> and \<^verbatim>\<open>IPython.display.Latex\<close> wrap a string payload.\<close>

datatype display = Math pystr | Latex pystr

text \<open>\<^verbatim>\<open>sep.join(parts)\<close>.\<close>

fun join :: "pystr \<Rightarrow> pystr list \<Rightarrow> pystr" where
  "join sep [] = []"
| "join sep [x] = x"
| "join sep (x # y # ys) = x @ sep @ join sep (y # ys)"

text \<open>
  \<^verbatim>\<open>s[:k]\<close>: a negative bound counts from the end, and a bound outside the string is
  clamped to it; slicing never raises.
\<close>

definition slice_to :: "int \<Rightarrow> 'a list \<Rightarrow> 'a list" where
  "slice_to k s =
     (let n = int (length s);
          j = (if k < 0 then max 0 (n + k) else min k n)
      in take (nat j) s)"

subsection \<open>Integer formatting\<close>

definition digit :: "nat \<Rightarrow> codepoint" where
  "digit d = 48 + d"

text \<open>The digits of a non-negative integer in base 2 (format type \<^verbatim>\<open>b\<close>) and base 10.\<close>

fun bin :: "nat \<Rightarrow> pystr" where
  "bin n = (if n < 2 then [digit n] else bin (n div 2) @ [digit (n mod 2)])"

fun dec :: "nat \<Rightarrow> pystr" where
  "dec n = (if n < 10 then [digit n] else dec (n div 10) @ [digit (n mod 10)])"

declare bin.simps [simp del] dec.simps [simp del]

definition zero_pad :: "nat \<Rightarrow> pystr \<Rightarrow> pystr" where
  "zero_pad w s = replicate (w - length s) (digit 0) @ s"

text \<open>
  \<^verbatim>\<open>format(i, f"0{w}b")\<close> for \<open>i \<ge> 0\<close>: the format spec is the flag \<^verbatim>\<open>0\<close>, the minimum
  width \<open>w\<close> and the type \<^verbatim>\<open>b\<close>.  The width is a minimum: a longer representation is
  not cut, and width 0 pads nothing.
\<close>

definition format_0b :: "nat \<Rightarrow> nat \<Rightarrow> pystr" where
  "format_0b w i = zero_pad w (bin i)"

subsection \<open>Fixed-point formatting of floats\<close>

text \<open>
  A finite double is modelled by the real number it denotes.  CPython formats a float
  with type \<^verbatim>\<open>f\<close> by rounding that exact value correctly to the requested number of
  decimals, ties to even; the sign is printed from the value before rounding, so a small
  negative value prints as \<^verbatim>\<open>-0.000\<close>.  The flag \<^verbatim>\<open>+\<close> prints a sign for non-negative
  values too.  Non-finite values and the negative zero have no counterpart here.
\<close>

definition round_half_even :: "real \<Rightarrow> int" where
  "round_half_even x =
     (let f = \<lfloor>x\<rfloor>; r = x - of_int f
      in if r < 1 / 2 then f else if 1 / 2 < r then f + 1
         else if even f then f else f + 1)"

definition format_f :: "bool \<Rightarrow> nat \<Rightarrow> real \<Rightarrow> pystr" where
  "format_f force_sign p x =
     (let n = nat (round_half_even (\<bar>x\<bar> * 10 ^ p));
          ip = n div 10 ^ p;
          fp = n mod 10 ^ p
      in (if x < 0 then S ''-'' else if force_sign then S ''+'' else [])
         @ dec ip
         @ (if p = 0 then [] else S ''.'' @ zero_pad p (dec fp)))"

text \<open>
  \<^verbatim>\<open>format(z, ".pf")\<close> for a complex \<open>z\<close> (\<^verbatim>\<open>numpy.complex128\<close> inherits it from
  \<^verbatim>\<open>complex\<close>): the real part, the imaginary part with a forced sign, and the letter
  \<^verbatim>\<open>j\<close>.
\<close>

definition format_complex :: "nat \<Rightarrow> complex \<Rightarrow> pystr" where
  "format_complex p z = format_f False p (Re z) @ format_f True p (Im z) @ S ''j''"

section \<open>The numeric primitives of numpy\<close>

text \<open>
  \<^verbatim>\<open>array_to_dirac_notation\<close> calls four floating-point operations of numpy and one
  formatting operation on its elements.  Their results depend on the element type of the
  array and on IEEE rounding, so the functions below take them as a record of
  operations over an element type \<open>'a\<close> and a norm type \<open>'r\<close>; what is proved for every
  such record holds for whatever numpy computes.
\<close>

record ('a, 'r) numpy =
  linalg_norm :: "'a list \<Rightarrow> 'r"
  true_divide :: "'a \<Rightarrow> 'r \<Rightarrow> 'a"
  absolute :: "'a \<Rightarrow> 'r"
  greater_1e_10 :: "'r \<Rightarrow> bool"
  format_3f :: "'a \<Rightarrow> pystr"

text \<open>
  Exact arithmetic on complex amplitudes (\<^verbatim>\<open>complex128\<close>) and on real amplitudes
  (\<^verbatim>\<open>float64\<close>): the operations without rounding.  They agree with numpy wherever
  every intermediate result is representable, as on the basis vectors.
\<close>

definition exact_complex :: "(complex, real) numpy" where
  "exact_complex =
     \<lparr> linalg_norm = (\<lambda>xs. sqrt (\<Sum>x\<leftarrow>xs. (Re x)\<^sup>2 + (Im x)\<^sup>2)),
       true_divide = (\<lambda>x n. x / of_real n),
       absolute = cmod,
       greater_1e_10 = (\<lambda>r. 1 / 10 ^ 10 < r),
       format_3f = format_complex 3 \<rparr>"

definition exact_float :: "(real, real) numpy" where
  "exact_float =
     \<lparr> linalg_norm = (\<lambda>xs. sqrt (\<Sum>x\<leftarrow>xs. x\<^sup>2)),
       true_divide = (\<lambda>x n. x / n),
       absolute = abs,
       greater_1e_10 = (\<lambda>r. 1 / 10 ^ 10 < r),
       format_3f = format_f False 3 \<rparr>"

section \<open>array_to_dirac_notation\<close>

text \<open>\<^verbatim>\<open>superposition_array / np.linalg.norm(superposition_array)\<close>, elementwise.\<close>

definition rescale :: "('a, 'r) numpy \<Rightarrow> 'a list \<Rightarrow> 'a list" where
  "rescale np xs = map (\<lambda>x. true_divide np x (linalg_norm np xs)) xs"

text \<open>
  \<^verbatim>\<open>int(np.log2(L))\<close>.  For \<open>L = 0\<close> the logarithm is \<^verbatim>\<open>-inf\<close> and \<^verbatim>\<open>int\<close> raises
  \<^verbatim>\<open>OverflowError\<close>.  For \<open>L > 0\<close> the conversion truncates a non-negative float, and
  \<^verbatim>\<open>np.log2\<close> is exact at powers of two, so the result is the integer logarithm for
  every length an array can have.
\<close>

fun ilog2 :: "nat \<Rightarrow> nat" where
  "ilog2 n = (if n < 2 then 0 else Suc (ilog2 (n div 2)))"

declare ilog2.simps [simp del]

definition num_qubits :: "nat \<Rightarrow> error + nat" where
  "num_qubits L = (if L = 0 then Inl OverflowError else Inr (ilog2 L))"

text \<open>
  The loop over \<^verbatim>\<open>enumerate(superposition_array)\<close>, with the accumulated string as
  its state.
\<close>

fun dirac_loop :: "('a, 'r) numpy \<Rightarrow> nat \<Rightarrow> (nat \<times> 'a) list \<Rightarrow> pystr \<Rightarrow> pystr" where
  "dirac_loop np n [] acc = acc"
| "dirac_loop np n ((i, amplitude) # rest) acc =
     dirac_loop np n rest
       (if greater_1e_10 np (absolute np amplitude)
        then acc @ format_3f np amplitude @ S ''|'' @ format_0b n i @ [ket] @ S '' + ''
        else acc)"

definition array_to_dirac_notation :: "('a, 'r) numpy \<Rightarrow> 'a list \<Rightarrow> error + pystr" where
  "array_to_dirac_notation np superposition_array =
     (let arr = rescale np superposition_array
      in case num_qubits (length arr) of
           Inl e \<Rightarrow> Inl e
         | Inr n \<Rightarrow> Inr (slice_to (- 3) (dirac_loop np n (enumerate 0 arr) [])))"

text \<open>The indices whose rescaled amplitude passes the magnitude test, in increasing order.\<close>

definition term_indices :: "('a, 'r) numpy \<Rightarrow> 'a list \<Rightarrow> nat list" where
  "term_indices np xs =
     filter (\<lambda>i. greater_1e_10 np (absolute np (rescale np xs ! i))) [0..<length xs]"

text \<open>
  The result in the specification's words: one term per index of \<open>term_indices\<close>, each
  term the formatted amplitude, a bar, the \<open>n\<close>-bit binary representation of the index
  with \<open>n = \<lfloor>log\<^sub>2 L\<rfloor>\<close>, and the closing bracket; the terms joined by \<^verbatim>\<open>" + "\<close>.  The
  \<open>n\<close>-bit representation is the string of exactly \<open>n\<close> binary digits, most significant
  first; an index of \<open>2\<^sup>n\<close> or more has none, and the definition keeps its \<open>n\<close> low
  digits.
\<close>

fun n_bit_label :: "nat \<Rightarrow> nat \<Rightarrow> pystr" where
  "n_bit_label 0 i = []"
| "n_bit_label (Suc n) i = n_bit_label n (i div 2) @ [digit (i mod 2)]"

definition claimed_term :: "('a, 'r) numpy \<Rightarrow> 'a list \<Rightarrow> nat \<Rightarrow> pystr" where
  "claimed_term np xs i =
     format_3f np (rescale np xs ! i) @ S ''|''
       @ n_bit_label (nat \<lfloor>log 2 (real (length xs))\<rfloor>) i @ [ket]"

definition claimed_dirac_notation :: "('a, 'r) numpy \<Rightarrow> 'a list \<Rightarrow> pystr" where
  "claimed_dirac_notation np xs =
     join (S '' + '') (map (claimed_term np xs) (term_indices np xs))"

text \<open>
  The same with \<open>n\<close> as a minimum width: the label is the binary representation of the
  index, padded with zeros when it has fewer than \<open>n\<close> digits and left as it is when it
  has more.
\<close>

definition padded_term :: "('a, 'r) numpy \<Rightarrow> 'a list \<Rightarrow> nat \<Rightarrow> pystr" where
  "padded_term np xs i =
     format_3f np (rescale np xs ! i) @ S ''|''
       @ zero_pad (nat \<lfloor>log 2 (real (length xs))\<rfloor>) (bin i) @ [ket]"

definition joined_terms :: "('a, 'r) numpy \<Rightarrow> 'a list \<Rightarrow> pystr" where
  "joined_terms np xs = join (S '' + '') (map (padded_term np xs) (term_indices np xs))"

text \<open>The value of a string of binary digits, most significant first.\<close>

definition bin_value :: "pystr \<Rightarrow> nat" where
  "bin_value s = foldl (\<lambda>v c. 2 * v + (c - 48)) 0 s"

text \<open>The basis vector \<open>e\<^sub>i\<close> of length \<open>L\<close>.\<close>

definition basis_vector :: "nat \<Rightarrow> nat \<Rightarrow> 'a::zero_neq_one list" where
  "basis_vector L i = (replicate L 0)[i := 1]"

section \<open>array_to_matrix_representation\<close>

text \<open>
  \<^verbatim>\<open>buf.reshape((r, c))\<close> on a one-dimensional array: the rows are consecutive chunks of
  \<open>c\<close> elements; numpy raises \<^verbatim>\<open>ValueError\<close> when \<open>r * c\<close> is not the number of
  elements.  A matrix is the list of its rows.
\<close>

definition np_reshape :: "nat \<times> nat \<Rightarrow> 'a list \<Rightarrow> error + 'a list list" where
  "np_reshape shp buf =
     (case shp of (r, c) \<Rightarrow>
        if r * c = length buf
        then Inr (map (\<lambda>i. take c (drop (i * c) buf)) [0..<r])
        else Inl ValueError)"

definition array_to_matrix_representation :: "'a list \<Rightarrow> error + 'a list list" where
  "array_to_matrix_representation array = np_reshape (length array, 1) array"

text \<open>\<^verbatim>\<open>m.flatten()\<close>: the elements in row-major order.\<close>

definition flatten :: "'a list list \<Rightarrow> 'a list" where
  "flatten m = concat m"

section \<open>The renderers\<close>

text \<open>
  \<^verbatim>\<open>str\<close> applied to an array element is the shortest decimal that reads back as the
  same float, which depends on the element type; the renderers take it as a parameter.
\<close>

definition column_bmatrix :: "('a \<Rightarrow> pystr) \<Rightarrow> 'a list list \<Rightarrow> pystr" where
  "column_bmatrix str m =
     [backslash] @ S ''begin{bmatrix}'' @ [newline]
       @ join [backslash, backslash, newline] (map str (flatten m))
       @ [newline, backslash] @ S ''end{bmatrix}''"

definition array_to_dirac_latex :: "('a, 'r) numpy \<Rightarrow> 'a list \<Rightarrow> error + display" where
  "array_to_dirac_latex np array =
     (case array_to_dirac_notation np array of
        Inl e \<Rightarrow> Inl e
      | Inr notation \<Rightarrow> Inr (Math (S ''Dirac Notation:'' @ notation)))"

definition array_to_matrix_latex :: "('a \<Rightarrow> pystr) \<Rightarrow> 'a list \<Rightarrow> error + display" where
  "array_to_matrix_latex str array =
     (case array_to_matrix_representation array of
        Inl e \<Rightarrow> Inl e
      | Inr matrix_representation \<Rightarrow>
          Inr (Math (S ''Matrix Representation:'' @ column_bmatrix str matrix_representation)))"

definition array_to_dirac_and_matrix_latex ::
    "('a, 'r) numpy \<Rightarrow> ('a \<Rightarrow> pystr) \<Rightarrow> 'a list \<Rightarrow> error + display" where
  "array_to_dirac_and_matrix_latex np str array =
     (case array_to_matrix_representation array of
        Inl e \<Rightarrow> Inl e
      | Inr matrix_representation \<Rightarrow>
          (let latex = S ''Matrix representation'' @ [newline]
                         @ column_bmatrix str matrix_representation @ [newline]
           in case array_to_dirac_notation np array of
                Inl e \<Rightarrow> Inl e
              | Inr notation \<Rightarrow>
                  Inr (Latex (latex @ S ''Dirac Notation:'' @ [newline] @ notation))))"

section \<open>matrix_to_latex\<close>

text \<open>
  The opening line \<^verbatim>\<open>\begin{bmatrix}\<close> with its newline, the text appended after each
  row (a space, two backslashes, a newline) and the closing \<^verbatim>\<open>\end{bmatrix}\<close>.
\<close>

definition opening_bracket :: pystr where
  "opening_bracket = [backslash] @ S ''begin{bmatrix}'' @ [newline]"

definition row_terminator :: pystr where
  "row_terminator = S '' '' @ [backslash, backslash, newline]"

definition closing_bracket :: pystr where
  "closing_bracket = [backslash] @ S ''end{bmatrix}''"

text \<open>The loop over the rows, with \<^verbatim>\<open>latex_code\<close> as its state.\<close>

fun latex_rows :: "('a \<Rightarrow> pystr) \<Rightarrow> 'a list list \<Rightarrow> pystr \<Rightarrow> pystr" where
  "latex_rows str [] latex_code = latex_code"
| "latex_rows str (row # rows) latex_code =
     latex_rows str rows (latex_code @ join (S '' & '') (map str row) @ row_terminator)"

definition matrix_to_latex :: "('a \<Rightarrow> pystr) \<Rightarrow> 'a list list \<Rightarrow> pystr \<Rightarrow> display" where
  "matrix_to_latex str matrix prefix =
     Math (latex_rows str matrix (prefix @ opening_bracket) @ closing_bracket)"

text \<open>The call without the optional argument: \<^verbatim>\<open>prefix=''\<close>.\<close>

definition matrix_to_latex_default :: "('a \<Rightarrow> pystr) \<Rightarrow> 'a list list \<Rightarrow> display" where
  "matrix_to_latex_default str matrix = matrix_to_latex str matrix []"

text \<open>
  The payload in the specification's words, for a given opening bracket, row terminator
  and closing bracket: the prefix, the opening bracket, each row joined by \<^verbatim>\<open>" & "\<close> and
  followed by the terminator, the closing bracket.
\<close>

definition spec_payload ::
    "pystr \<Rightarrow> pystr \<Rightarrow> pystr \<Rightarrow> ('a \<Rightarrow> pystr) \<Rightarrow> 'a list list \<Rightarrow> pystr \<Rightarrow> pystr" where
  "spec_payload ob terminator cb str matrix prefix =
     prefix @ ob
       @ concat (map (\<lambda>row. join (S '' & '') (map str row) @ terminator) matrix)
       @ cb"

text \<open>\<^verbatim>\<open>str\<close> of a Python integer, used to run the renderers on integer matrices.\<close>

definition str_int :: "int \<Rightarrow> pystr" where
  "str_int k = (if k < 0 then S ''-'' else []) @ dec (nat \<bar>k\<bar>)"

section \<open>complex_matrix_to_string\<close>

definition format_complex_number :: "complex \<Rightarrow> pystr" where
  "format_complex_number x =
     (if Re x = 0 \<and> Im x = 0 then S ''0''
      else if Re x = 0 then format_f False 4 (Im x) @ S ''i''
      else if Im x = 0 then format_f False 4 (Re x)
      else if 0 \<le> Im x
           then format_f False 4 (Re x) @ S '' + '' @ format_f False 4 (Im x) @ S ''i''
           else format_f False 4 (Re x) @ S '' - '' @ format_f False 4 (- Im x) @ S ''I'')"

text \<open>
  \<^verbatim>\<open>np.vectorize(f)(matrix)\<close> without \<^verbatim>\<open>otypes\<close>: numpy calls \<open>f\<close> on the first element
  to find the output type and raises \<^verbatim>\<open>ValueError\<close> (``cannot call `vectorize` on size 0
  inputs unless `otypes` is set'') when the matrix has no element; otherwise the result
  has the shape of the input.  The string type of the result is as wide as the longest
  label, so no label is cut.
\<close>

definition np_vectorize :: "('a \<Rightarrow> 'b) \<Rightarrow> 'a list list \<Rightarrow> error + 'b list list" where
  "np_vectorize f matrix =
     (if concat matrix = [] then Inl ValueError else Inr (map (map f) matrix))"

definition complex_matrix_to_string :: "complex list list \<Rightarrow> error + pystr list list" where
  "complex_matrix_to_string matrix = np_vectorize format_complex_number matrix"

section \<open>Array objects in a store\<close>

text \<open>
  Whether a call changes the caller's array depends on which numpy operations write to
  an existing buffer and which allocate.  A store maps the addresses allocated so far to
  buffers; an array object names the buffer it views and carries its shape.
\<close>

type_synonym addr = nat

record 'a store =
  cells :: "addr \<Rightarrow> 'a list"
  fresh :: addr

record ndarray =
  base :: addr
  shape :: "nat list"

definition contents :: "'a store \<Rightarrow> ndarray \<Rightarrow> 'a list" where
  "contents s arr = cells s (base arr)"

definition new_array :: "'a store \<Rightarrow> nat list \<Rightarrow> 'a list \<Rightarrow> 'a store \<times> ndarray" where
  "new_array s shp buf =
     (s\<lparr>cells := (cells s)(fresh s := buf), fresh := Suc (fresh s)\<rparr>,
      \<lparr>base = fresh s, shape = shp\<rparr>)"

text \<open>
  \<^verbatim>\<open>superposition_array = superposition_array / np.linalg.norm(superposition_array)\<close>: the
  binary operator builds a new array and the assignment rebinds the local name to it;
  the loop then reads the new array.
\<close>

definition array_to_dirac_notation_st ::
    "('a, 'r) numpy \<Rightarrow> 'a store \<Rightarrow> ndarray \<Rightarrow> 'a store \<times> (error + pystr)" where
  "array_to_dirac_notation_st np s superposition_array =
     (case new_array s (shape superposition_array)
             (rescale np (contents s superposition_array)) of
        (s1, arr) \<Rightarrow>
          (s1, case num_qubits (length (contents s1 arr)) of
                 Inl e \<Rightarrow> Inl e
               | Inr n \<Rightarrow>
                   Inr (slice_to (- 3) (dirac_loop np n (enumerate 0 (contents s1 arr)) []))))"

text \<open>
  \<^verbatim>\<open>array.reshape((len(array), 1))\<close> returns a view: a new array object over the same
  buffer; on a one-dimensional array the new shape always fits.  \<^verbatim>\<open>flatten()\<close> returns a
  copy in a new buffer.
\<close>

definition array_to_matrix_representation_st :: "'a store \<Rightarrow> ndarray \<Rightarrow> 'a store \<times> ndarray" where
  "array_to_matrix_representation_st s array =
     (s, \<lparr>base = base array, shape = [length (contents s array), 1]\<rparr>)"

definition flatten_st :: "'a store \<Rightarrow> ndarray \<Rightarrow> 'a store \<times> ndarray" where
  "flatten_st s m = new_array s [length (contents s m)] (contents s m)"

definition column_bmatrix_st :: "('a \<Rightarrow> pystr) \<Rightarrow> 'a store \<Rightarrow> ndarray \<Rightarrow> 'a store \<times> pystr" where
  "column_bmatrix_st str s m =
     (case flatten_st s m of
        (s1, flat) \<Rightarrow>
          (s1, [backslash] @ S ''begin{bmatrix}'' @ [newline]
                 @ join [backslash, backslash, newline] (map str (contents s1 flat))
                 @ [newline, backslash] @ S ''end{bmatrix}''))"

definition array_to_dirac_latex_st ::
    "('a, 'r) numpy \<Rightarrow> 'a store \<Rightarrow> ndarray \<Rightarrow> 'a store \<times> (error + display)" where
  "array_to_dirac_latex_st np s array =
     (case array_to_dirac_notation_st np s array of
        (s1, Inl e) \<Rightarrow> (s1, Inl e)
      | (s1, Inr notation) \<Rightarrow> (s1, Inr (Math (S ''Dirac Notation:'' @ notation))))"

definition array_to_matrix_latex_st ::
    "('a \<Rightarrow> pystr) \<Rightarrow> 'a store \<Rightarrow> ndarray \<Rightarrow> 'a store \<times> (error + display)" where
  "array_to_matrix_latex_st str s array =
     (case array_to_matrix_representation_st s array of
        (s1, matrix_representation) \<Rightarrow>
          (case column_bmatrix_st str s1 matrix_representation of
             (s2, latex) \<Rightarrow> (s2, Inr (Math (S ''Matrix Representation:'' @ latex)))))"

definition array_to_dirac_and_matrix_latex_st ::
    "('a, 'r) numpy \<Rightarrow> ('a \<Rightarrow> pystr) \<Rightarrow> 'a store \<Rightarrow> ndarray \<Rightarrow> 'a store \<times> (error + display)" where
  "array_to_dirac_and_matrix_latex_st np str s array =
     (case array_to_matrix_representation_st s array of
        (s1, matrix_representation) \<Rightarrow>
          (case column_bmatrix_st str s1 matrix_representation of
             (s2, bm) \<Rightarrow>
               (let latex = S ''Matrix representation'' @ [newline] @ bm @ [newline]
                in case array_to_dirac_notation_st np s2 array of
                     (s3, Inl e) \<Rightarrow> (s3, Inl e)
                   | (s3, Inr notation) \<Rightarrow>
                       (s3, Inr (Latex (latex @ S ''Dirac Notation:'' @ [newline] @ notation))))))"

text \<open>A store holding one array, for running the functions above.\<close>

definition store_of :: "'a list \<Rightarrow> 'a store" where
  "store_of xs = \<lparr>cells = (\<lambda>a. if a = 0 then xs else []), fresh = 1\<rparr>"

definition array_at0 :: "nat \<Rightarrow> ndarray" where
  "array_at0 L = \<lparr>base = 0, shape = [L]\<rparr>"

section \<open>Accuracy of the floating-point primitives\<close>

text \<open>
  IEEE arithmetic rounds: a primitive of numpy returns the exact result up to a small
  relative error.  The predicates below say that the norm, the division and the
  magnitude test of a record of primitives are accurate to relative error \<open>\<epsilon>\<close> at
  given arguments; exact arithmetic is accurate to relative error 0.  The literal
  \<^verbatim>\<open>1e-10\<close> is itself rounded to a double, so the test compares with some \<open>t\<close> within
  relative error \<open>\<epsilon>\<close> of \<open>10\<^sup>-\<^sup>1\<^sup>0\<close>.
\<close>

definition norm_accurate :: "real \<Rightarrow> (complex, real) numpy \<Rightarrow> complex list \<Rightarrow> bool" where
  "norm_accurate \<epsilon> np xs \<longleftrightarrow>
     \<bar>linalg_norm np xs - linalg_norm exact_complex xs\<bar> \<le> \<epsilon> * linalg_norm exact_complex xs"

definition divide_accurate :: "real \<Rightarrow> (complex, real) numpy \<Rightarrow> complex \<Rightarrow> real \<Rightarrow> bool" where
  "divide_accurate \<epsilon> np x r \<longleftrightarrow>
     cmod (true_divide np x r - x / of_real r) \<le> \<epsilon> * cmod (x / of_real r)"

definition test_accurate :: "real \<Rightarrow> (complex, real) numpy \<Rightarrow> complex \<Rightarrow> bool" where
  "test_accurate \<epsilon> np q \<longleftrightarrow>
     (\<exists>t. \<bar>absolute np q - cmod q\<bar> \<le> \<epsilon> * cmod q \<and> \<bar>t - 1 / 10 ^ 10\<bar> \<le> \<epsilon> / 10 ^ 10 \<and>
          (greater_1e_10 np (absolute np q) \<longleftrightarrow> t < absolute np q))"

text \<open>
  An arithmetic whose norm is too large by one part in a thousand and whose other
  primitives are exact: an instance with a nonzero rounding error.
\<close>

definition coarse_complex :: "(complex, real) numpy" where
  "coarse_complex =
     exact_complex \<lparr> linalg_norm := \<lambda>xs. 1001 / 1000 * linalg_norm exact_complex xs \<rparr>"

section \<open>Evaluation and helper lemmas\<close>

lemma replicate_numeral: "replicate (numeral k) x = x # replicate (pred_numeral k) x"
  by (simp add: numeral_eq_Suc)

lemmas string_eval = S_def ket_def backslash_def newline_def digit_def zero_pad_def
  format_0b_def bin.simps dec.simps ilog2.simps replicate_numeral

lemmas float_eval = format_f_def format_complex_def round_half_even_def Let_def

text \<open>
  The digits of \<open>bin\<close> are binary digits whose value is the number, and an index below
  \<open>2\<^sup>w\<close> is labelled with exactly \<open>w\<close> digits.
\<close>

lemma bin_value_snoc: "bin_value (s @ [c]) = 2 * bin_value s + (c - 48)"
  by (simp add: bin_value_def)

lemma bin_value_bin: "bin_value (bin n) = n"
proof (induction n rule: bin.induct)
  case (1 n)
  show ?case
  proof (cases "n < 2")
    case True
    then show ?thesis by (subst bin.simps) (simp add: bin_value_def digit_def)
  next
    case False
    with 1 have "bin_value (bin (n div 2)) = n div 2" by simp
    with False show ?thesis
      by (subst bin.simps) (simp add: bin_value_snoc digit_def)
  qed
qed

lemma bin_digits: "set (bin n) \<subseteq> {digit 0, digit 1}"
proof (induction n rule: bin.induct)
  case (1 n)
  show ?case
  proof (cases "n < 2")
    case True
    then have "n = 0 \<or> n = 1" by arith
    then show ?thesis by (subst bin.simps) auto
  next
    case False
    have "n mod 2 = 0 \<or> n mod 2 = 1" by arith
    with False 1 show ?thesis by (subst bin.simps) auto
  qed
qed

lemma length_bin_le: "0 < w \<Longrightarrow> n < 2 ^ w \<Longrightarrow> length (bin n) \<le> w"
proof (induction n arbitrary: w rule: bin.induct)
  case (1 n)
  show ?case
  proof (cases "n < 2")
    case True
    with "1.prems" show ?thesis by (subst bin.simps) simp
  next
    case False
    from "1.prems" obtain v where w: "w = Suc v" by (cases w) auto
    with False "1.prems" have "0 < v" by (cases v) auto
    moreover from w "1.prems" have "n div 2 < 2 ^ v" by auto
    ultimately have "length (bin (n div 2)) \<le> v" using False "1.IH" by simp
    with w False show ?thesis by (subst bin.simps) simp
  qed
qed

lemma label_fixed_width: "0 < w \<Longrightarrow> i < 2 ^ w \<Longrightarrow> length (format_0b w i) = w"
  using length_bin_le [of w i] by (simp add: format_0b_def zero_pad_def)

lemma upt4: "[0..<4] = [0, 1, 2, 3]"
  by (simp add: upt_rec)

lemma sqrt_25: "sqrt 25 = 5"
  by (rule real_sqrt_unique) simp_all

text \<open>The integer logarithm is the floor of the real one.\<close>

lemma ilog2_floor_log: "0 < L \<Longrightarrow> int (ilog2 L) = \<lfloor>log 2 (real L)\<rfloor>"
proof (induction L rule: ilog2.induct)
  case (1 n)
  show ?case
  proof (cases "n < 2")
    case True
    with "1.prems" have "n = 1" by simp
    then show ?thesis by (simp add: ilog2.simps)
  next
    case False
    then have "0 < n div 2" by simp
    with False "1.IH" have "int (ilog2 (n div 2)) = \<lfloor>log 2 (real (n div 2))\<rfloor>" by simp
    moreover from False have "\<lfloor>log 2 (real n)\<rfloor> = \<lfloor>log 2 (real (n div 2))\<rfloor> + 1"
      using floor_log2_div2 [of n] by simp
    ultimately show ?thesis using False by (subst ilog2.simps) simp
  qed
qed

lemma floor_log2_ilog2: "0 < L \<Longrightarrow> nat \<lfloor>log 2 (real L)\<rfloor> = ilog2 L"
  using ilog2_floor_log [of L] by simp

text \<open>The loop appends one term and one separator per amplitude that passes the test.\<close>

lemma dirac_loop_concat:
  "dirac_loop np n ps acc =
     acc @ concat (map (\<lambda>t. t @ S '' + '')
                    (map (\<lambda>(i, a). format_3f np a @ S ''|'' @ format_0b n i @ [ket])
                       (filter (\<lambda>(i, a). greater_1e_10 np (absolute np a)) ps)))"
  by (induction ps arbitrary: acc) auto

lemma slice_to_neg3: "slice_to (- 3) s = take (length s - 3) s"
proof -
  have "nat (max 0 (int (length s) + - 3)) = length s - 3" by simp
  then show ?thesis by (simp add: slice_to_def Let_def)
qed

lemma take_strip_sep:
  "length sep = 3 \<Longrightarrow>
   take (length (concat (map (\<lambda>t. t @ sep) ts)) - 3) (concat (map (\<lambda>t. t @ sep) ts))
     = join sep ts"
proof (induction sep ts rule: join.induct)
  case (1 sep)
  then show ?case by simp
next
  case (2 sep x)
  then show ?case by simp
next
  case (3 sep x y ys)
  let ?R = "concat (map (\<lambda>t. t @ sep) (y # ys))"
  from 3 have IH: "take (length ?R - 3) ?R = join sep (y # ys)" by simp
  from "3.prems" have len: "3 \<le> length ?R" by simp
  have "concat (map (\<lambda>t. t @ sep) (x # y # ys)) = (x @ sep) @ ?R" by simp
  moreover from len
  have "take (length ((x @ sep) @ ?R) - 3) ((x @ sep) @ ?R) = (x @ sep) @ take (length ?R - 3) ?R"
    by simp
  ultimately show ?case using IH by simp
qed

lemma slice_strip_sep:
  "length sep = 3 \<Longrightarrow> slice_to (- 3) (concat (map (\<lambda>t. t @ sep) ts)) = join sep ts"
  by (simp only: slice_to_neg3 take_strip_sep)

lemma enumerate_nth:
  "map f (filter P (enumerate 0 xs)) =
   map (\<lambda>i. f (i, xs ! i)) (filter (\<lambda>i. P (i, xs ! i)) [0..<length xs])"
proof -
  have "enumerate 0 xs = map (\<lambda>i. (i, xs ! i)) [0..<length xs]"
    by (rule nth_equalityI) (simp_all add: nth_enumerate_eq)
  then show ?thesis by (simp add: filter_map comp_def)
qed

lemma length_rescale: "length (rescale np xs) = length xs"
  by (simp add: rescale_def)

lemma dirac_notation_terms:
  assumes "xs \<noteq> []"
  shows "array_to_dirac_notation np xs =
     Inr (join (S '' + '')
           (map (\<lambda>i. format_3f np (rescale np xs ! i) @ S ''|''
                        @ format_0b (ilog2 (length xs)) i @ [ket])
                (term_indices np xs)))"
proof -
  let ?arr = "rescale np xs"
  let ?n = "ilog2 (length xs)"
  have nq: "num_qubits (length ?arr) = Inr ?n"
    using assms by (simp add: num_qubits_def length_rescale)
  have sep: "length (S '' + '') = 3" by (simp add: S_def)
  have "slice_to (- 3) (dirac_loop np ?n (enumerate 0 ?arr) []) =
        join (S '' + '')
          (map (\<lambda>(i, a). format_3f np a @ S ''|'' @ format_0b ?n i @ [ket])
             (filter (\<lambda>(i, a). greater_1e_10 np (absolute np a)) (enumerate 0 ?arr)))"
    by (simp only: dirac_loop_concat append_Nil slice_strip_sep [OF sep])
  also have "\<dots> = join (S '' + '')
        (map (\<lambda>i. format_3f np (?arr ! i) @ S ''|'' @ format_0b ?n i @ [ket])
           (term_indices np xs))"
    by (simp add: enumerate_nth term_indices_def length_rescale)
  finally show ?thesis
    by (simp add: array_to_dirac_notation_def Let_def nq)
qed

section \<open>The notation string\<close>

lemma term_indices_ex: "term_indices exact_complex [3, 0, 0, Complex 0 4] = [0, 3]"
  by (simp add: term_indices_def exact_complex_def rescale_def sqrt_25 upt4 cmod_def)

lemma rescale_ex:
  "rescale exact_complex [3, 0, 0, Complex 0 4] = [3 / 5, 0, 0, Complex 0 (4 / 5)]"
  by (simp add: exact_complex_def rescale_def sqrt_25 complex_eq_iff)

lemma qubits_ex: "nat \<lfloor>log 2 (real (length [3, 0, 0, Complex 0 4]))\<rfloor> = 2"
  using floor_log2_ilog2 [of 4] by (simp add: ilog2.simps)

lemma format_3f_exact_complex: "format_3f exact_complex = format_complex 3"
  by (simp add: exact_complex_def)

lemma padded_term_ex0:
  "padded_term exact_complex [3, 0, 0, Complex 0 4] 0 = S ''0.600+0.000j|00'' @ [ket]"
  unfolding padded_term_def rescale_ex format_3f_exact_complex qubits_ex
  by (simp add: string_eval float_eval)

lemma padded_term_ex3:
  "padded_term exact_complex [3, 0, 0, Complex 0 4] 3 = S ''0.000+0.800j|11'' @ [ket]"
  unfolding padded_term_def rescale_ex format_3f_exact_complex qubits_ex
  by (simp add: string_eval float_eval)

lemma format_one_complex: "format_3f exact_complex 1 = S ''1.000+0.000j''"
  by (simp add: exact_complex_def string_eval float_eval)

text \<open>
  Below \<open>2\<^sup>n\<close>, and for \<open>n > 0\<close>, padding the binary representation to the minimum width
  \<open>n\<close> gives the \<open>n\<close>-bit representation.
\<close>

lemma n_bit_label_zero: "n_bit_label n 0 = replicate n (digit 0)"
  by (induction n) (simp_all add: replicate_append_same)

lemma length_n_bit_label: "length (n_bit_label n i) = n"
  by (induction n arbitrary: i) simp_all

lemma zero_pad_bin_n_bits:
  "0 < n \<Longrightarrow> i < 2 ^ n \<Longrightarrow> zero_pad n (bin i) = n_bit_label n i"
proof (induction n arbitrary: i)
  case 0
  then show ?case by simp
next
  case (Suc m)
  show ?case
  proof (cases "i < 2")
    case True
    then have "bin i = [digit i]" "i div 2 = 0" "i mod 2 = i"
      by (simp_all add: bin.simps)
    then show ?thesis
      by (simp add: zero_pad_def n_bit_label_zero)
  next
    case False
    with Suc.prems have m: "0 < m" by (cases m) auto
    from Suc.prems have half: "i div 2 < 2 ^ m" by auto
    from length_bin_le [OF m half] have len: "length (bin (i div 2)) \<le> m" .
    from False have "bin i = bin (i div 2) @ [digit (i mod 2)]"
      by (subst bin.simps) simp
    then have "zero_pad (Suc m) (bin i) = zero_pad m (bin (i div 2)) @ [digit (i mod 2)]"
      using len by (simp add: zero_pad_def)
    with Suc.IH [OF m half] show ?thesis by simp
  qed
qed

lemma term_indices_bound: "i \<in> set (term_indices np xs) \<Longrightarrow> i < length xs"
  by (simp add: term_indices_def)

lemma claimed_on_power_of_two:
  assumes "0 < n" "length xs = 2 ^ n"
  shows "claimed_dirac_notation np xs = joined_terms np xs"
proof -
  have "nat \<lfloor>log 2 (real (length xs))\<rfloor> = n"
    using assms(2) floor_log_nat_eq_if [of 2 n "2 ^ n"] by simp
  then have "claimed_term np xs i = padded_term np xs i" if "i \<in> set (term_indices np xs)" for i
    using term_indices_bound [OF that] assms
    by (simp add: claimed_term_def padded_term_def zero_pad_bin_n_bits)
  then show ?thesis
    by (simp add: claimed_dirac_notation_def joined_terms_def cong: map_cong)
qed

text \<open>The inputs \<open>(0, 0, 1)\<close>, of length 3, and \<open>(1)\<close>, of length 1.\<close>

lemma rescale_001: "rescale exact_complex [0, 0, 1] = [0, 0, 1]"
  by (simp add: rescale_def exact_complex_def)

lemma upt3: "[0..<3] = [0, 1, 2]"
  by (simp add: upt_rec)

lemma term_indices_001: "term_indices exact_complex [0, 0, 1] = [2]"
  by (simp add: term_indices_def rescale_001 upt3) (simp add: exact_complex_def)

lemma qubits_001: "nat \<lfloor>log 2 (real (length [0, 0, 1 :: complex]))\<rfloor> = 1"
  using floor_log2_ilog2 [of 3] by (simp add: ilog2.simps)

lemma padded_001:
  "joined_terms exact_complex [0, 0, 1] = S ''1.000+0.000j|10'' @ [ket]"
  unfolding joined_terms_def padded_term_def term_indices_001 rescale_001 qubits_001
  by (simp add: format_one_complex string_eval)

lemma claimed_001:
  "claimed_dirac_notation exact_complex [0, 0, 1] = S ''1.000+0.000j|0'' @ [ket]"
  unfolding claimed_dirac_notation_def claimed_term_def term_indices_001 rescale_001 qubits_001
  by (simp add: format_one_complex S_def digit_def)

lemma rescale_1: "rescale exact_complex [1] = [1]"
  by (simp add: rescale_def exact_complex_def)

lemma term_indices_1: "term_indices exact_complex [1] = [0]"
  by (simp add: term_indices_def rescale_1) (simp add: exact_complex_def)

lemma qubits_1: "nat \<lfloor>log 2 (real (length [1 :: complex]))\<rfloor> = 0"
  by simp

lemma padded_1: "joined_terms exact_complex [1] = S ''1.000+0.000j|0'' @ [ket]"
  unfolding joined_terms_def padded_term_def term_indices_1 rescale_1 qubits_1
  by (simp add: format_one_complex string_eval)

lemma claimed_1: "claimed_dirac_notation exact_complex [1] = S ''1.000+0.000j|'' @ [ket]"
  unfolding claimed_dirac_notation_def claimed_term_def term_indices_1 rescale_1 qubits_1
  by (simp add: format_one_complex S_def)

lemma notation_001:
  "array_to_dirac_notation exact_complex [0, 0, 1] = Inr (S ''1.000+0.000j|10'' @ [ket])"
  by (simp add: dirac_notation_terms term_indices_001 rescale_001 format_one_complex)
     (simp add: string_eval)

lemma notation_1:
  "array_to_dirac_notation exact_complex [1] = Inr (S ''1.000+0.000j|0'' @ [ket])"
  by (simp add: dirac_notation_terms term_indices_1 rescale_1 format_one_complex)
     (simp add: string_eval)

text \<open>
  C1, as the claim states it, fails: the width \<open>n\<close> of the format is a minimum.  On the
  input \<open>(0, 0, 1)\<close>, where \<open>n = 1\<close>, the index 2 is labelled \<^verbatim>\<open>10\<close>, and on the input
  \<open>(1)\<close>, where \<open>n = 0\<close>, the index 0 is labelled \<^verbatim>\<open>0\<close>; the label of \<open>n\<close> bits has one
  digit in the first case and none in the second.
\<close>

theorem label_is_not_n_bits:
  "array_to_dirac_notation exact_complex [0, 0, 1] = Inr (S ''1.000+0.000j|10'' @ [ket]) \<and>
   claimed_dirac_notation exact_complex [0, 0, 1] = S ''1.000+0.000j|0'' @ [ket] \<and>
   array_to_dirac_notation exact_complex [0, 0, 1]
     \<noteq> Inr (claimed_dirac_notation exact_complex [0, 0, 1]) \<and>
   array_to_dirac_notation exact_complex [1] = Inr (S ''1.000+0.000j|0'' @ [ket]) \<and>
   claimed_dirac_notation exact_complex [1] = S ''1.000+0.000j|'' @ [ket] \<and>
   array_to_dirac_notation exact_complex [1] \<noteq> Inr (claimed_dirac_notation exact_complex [1])"
  by (simp add: notation_001 notation_1 claimed_001 claimed_1 S_def ket_def)

text \<open>
  C1, amended.  For a non-empty input of length \<open>L\<close> the function returns the terms of the
  amplitudes whose rescaled magnitude exceeds \<^verbatim>\<open>1e-10\<close>, in increasing index order,
  joined by \<^verbatim>\<open>" + "\<close> with no trailing separator; a term is the amplitude formatted
  with three decimals, a bar, the binary representation of the index padded with zeros
  to at least \<open>n = \<lfloor>log\<^sub>2 L\<rfloor>\<close> digits, and the closing bracket.  When \<open>L\<close> is a power of
  two and at least 2, every label has exactly \<open>n\<close> digits and the result is the one of the
  claim.  The statement holds for every behaviour of the floating-point primitives.
\<close>

theorem dirac_notation_is_joined_terms:
  assumes "xs \<noteq> []"
  shows "array_to_dirac_notation np xs = Inr (joined_terms np xs) \<and>
         (\<forall>n. 0 < n \<and> length xs = 2 ^ n \<longrightarrow>
              array_to_dirac_notation np xs = Inr (claimed_dirac_notation np xs))"
proof -
  have "array_to_dirac_notation np xs = Inr (joined_terms np xs)"
    using assms
    by (simp add: dirac_notation_terms joined_terms_def padded_term_def format_0b_def
          floor_log2_ilog2 cong: map_cong)
  then show ?thesis using claimed_on_power_of_two [of _ xs np] by auto
qed

text \<open>
  On the amplitudes \<open>(3, 0, 0, 4i)\<close>, of norm 5 and length \<open>2\<^sup>2\<close>, the two terms of the
  indices 0 and 3 are produced, with labels of two digits.
\<close>

theorem dirac_notation_is_joined_terms_witness:
  "array_to_dirac_notation exact_complex [3, 0, 0, Complex 0 4] =
     Inr (S ''0.600+0.000j|00'' @ [ket] @ S '' + 0.000+0.800j|11'' @ [ket]) \<and>
   claimed_dirac_notation exact_complex [3, 0, 0, Complex 0 4] =
     S ''0.600+0.000j|00'' @ [ket] @ S '' + 0.000+0.800j|11'' @ [ket]"
proof -
  have ne: "[3, 0, 0, Complex 0 4] \<noteq> ([] :: complex list)" by simp
  have len: "0 < (2::nat) \<and> length [3, 0, 0, Complex 0 4] = 2 ^ 2" by simp
  from dirac_notation_is_joined_terms [OF ne, of exact_complex]
  have a: "array_to_dirac_notation exact_complex [3, 0, 0, Complex 0 4]
             = Inr (joined_terms exact_complex [3, 0, 0, Complex 0 4])"
    and b: "array_to_dirac_notation exact_complex [3, 0, 0, Complex 0 4]
              = Inr (claimed_dirac_notation exact_complex [3, 0, 0, Complex 0 4])"
    using len by blast+
  have j: "joined_terms exact_complex [3, 0, 0, Complex 0 4]
             = S ''0.600+0.000j|00'' @ [ket] @ S '' + 0.000+0.800j|11'' @ [ket]"
    unfolding joined_terms_def term_indices_ex
    by (simp add: padded_term_ex0 padded_term_ex3 S_def)
  from a b j show ?thesis by simp
qed

section \<open>One amplitude, and no amplitude\<close>

lemma format_0b_zero_width: "format_0b 0 0 = S ''0''"
  by (simp add: string_eval)

lemma term_indices_single:
  "term_indices np [a] =
     (if greater_1e_10 np (absolute np (true_divide np a (linalg_norm np [a]))) then [0] else [])"
  by (simp add: term_indices_def rescale_def)

lemma dirac_loop_no_terms:
  "\<forall>p \<in> set ps. \<not> greater_1e_10 np (absolute np (snd p)) \<Longrightarrow> dirac_loop np n ps acc = acc"
  by (induction ps arbitrary: acc) auto

text \<open>
  C10.  On an input of length 1 whose rescaled amplitude passes the magnitude test, the
  qubit count is 0, the format of width 0 still prints the digit \<^verbatim>\<open>0\<close>, and the
  result is the formatted amplitude followed by \<^verbatim>\<open>|0\<close> and the closing bracket, not by
  an empty label.
\<close>

theorem single_amplitude_label:
  assumes "greater_1e_10 np (absolute np (true_divide np a (linalg_norm np [a])))"
  shows "num_qubits (length [a]) = Inr 0 \<and> format_0b 0 0 = S ''0'' \<and>
         array_to_dirac_notation np [a] =
           Inr (format_3f np (true_divide np a (linalg_norm np [a])) @ S ''|0'' @ [ket]) \<and>
         array_to_dirac_notation np [a] \<noteq>
           Inr (format_3f np (true_divide np a (linalg_norm np [a])) @ S ''|'' @ [ket])"
proof -
  have ne: "[a] \<noteq> []" by simp
  have "array_to_dirac_notation np [a] =
           Inr (format_3f np (true_divide np a (linalg_norm np [a])) @ S ''|0'' @ [ket])"
    using assms
    by (simp add: dirac_notation_terms [OF ne] term_indices_single ilog2.simps
          format_0b_zero_width)
       (simp add: rescale_def S_def)
  moreover have "num_qubits (length [a]) = Inr 0"
    by (simp add: num_qubits_def ilog2.simps)
  ultimately show ?thesis
    by (simp add: format_0b_zero_width S_def ket_def)
qed

text \<open>The single amplitude \<open>2i\<close> is rescaled to \<open>i\<close> and labelled \<^verbatim>\<open>0\<close>.\<close>

theorem single_amplitude_label_witness:
  "array_to_dirac_notation exact_complex [Complex 0 2] = Inr (S ''0.000+1.000j|0'' @ [ket])"
proof -
  have q: "true_divide exact_complex (Complex 0 2) (linalg_norm exact_complex [Complex 0 2])
             = Complex 0 1"
    by (simp add: exact_complex_def complex_eq_iff)
  have g: "greater_1e_10 exact_complex (absolute exact_complex (Complex 0 1))"
    by (simp add: exact_complex_def cmod_def)
  show ?thesis
    using single_amplitude_label [of exact_complex "Complex 0 2"] g
    unfolding q format_3f_exact_complex
    by (simp add: string_eval float_eval)
qed

text \<open>
  C5, as the claim states it, fails on the empty input: no amplitude exceeds the
  threshold there, and the call raises \<^verbatim>\<open>OverflowError\<close> at \<^verbatim>\<open>int(np.log2(0))\<close> before
  it reaches the slice.
\<close>

theorem empty_input_raises:
  "term_indices exact_complex [] = [] \<and>
   array_to_dirac_notation exact_complex [] = Inl OverflowError"
  by (simp add: term_indices_def array_to_dirac_notation_def rescale_def num_qubits_def)

text \<open>
  C5, amended.  For a non-empty input of which no rescaled amplitude exceeds the
  threshold, the loop leaves the accumulated string empty and the function returns the
  empty string; cutting the last three characters of a string of at most three
  characters yields the empty string and does not raise.
\<close>

theorem no_terms_gives_empty_string:
  assumes "xs \<noteq> []"
    and "\<forall>a \<in> set (rescale np xs). \<not> greater_1e_10 np (absolute np a)"
  shows "(\<forall>n. dirac_loop np n (enumerate 0 (rescale np xs)) [] = []) \<and>
         array_to_dirac_notation np xs = Inr [] \<and>
         (\<forall>s :: pystr. length s \<le> 3 \<longrightarrow> slice_to (- 3) s = [])"
proof -
  have "\<forall>p \<in> set (enumerate 0 (rescale np xs)). \<not> greater_1e_10 np (absolute np (snd p))"
    using assms(2) by (auto simp: enumerate_eq_zip dest: set_zip_rightD)
  then have loop: "dirac_loop np n (enumerate 0 (rescale np xs)) [] = []" for n
    by (rule dirac_loop_no_terms)
  have "array_to_dirac_notation np xs = Inr []"
    using assms(1)
    by (simp add: array_to_dirac_notation_def Let_def num_qubits_def rescale_def
          loop [unfolded rescale_def] slice_to_neg3)
  with loop show ?thesis by (simp add: slice_to_neg3)
qed

text \<open>
  The zero vector has norm 0.  numpy's quotient is NaN there and the quotient of the
  exact operations is 0; neither exceeds the threshold, and the result is the empty
  string.
\<close>

theorem no_terms_gives_empty_string_witness:
  "array_to_dirac_notation exact_complex [0, 0] = Inr [] \<and> slice_to (- 3) (S '' +'') = []"
proof -
  have ne: "[0, 0] \<noteq> ([] :: complex list)" by simp
  have none: "\<forall>a \<in> set (rescale exact_complex [0, 0]).
                \<not> greater_1e_10 exact_complex (absolute exact_complex a)"
    by (simp add: rescale_def exact_complex_def)
  have "length (S '' +'') \<le> 3" by (simp add: S_def)
  with no_terms_gives_empty_string [OF ne none] show ?thesis by blast
qed

section \<open>The basis states of two qubits\<close>

lemma basis4:
  "basis_vector 4 0 = [1, 0, 0, 0]" "basis_vector 4 (Suc 0) = [0, 1, 0, 0]"
  "basis_vector 4 2 = [0, 0, 1, 0]" "basis_vector 4 3 = [0, 0, 0, 1]"
  by (simp_all add: basis_vector_def eval_nat_numeral)

lemma less4_cases: "i < 4 \<Longrightarrow> i = 0 \<or> i = 1 \<or> i = 2 \<or> i = (3::nat)"
  by arith

lemma basis4_ne: "i < 4 \<Longrightarrow> basis_vector 4 i \<noteq> []"
  by (simp add: basis_vector_def)

lemma length_basis: "length (basis_vector L i) = L"
  by (simp add: basis_vector_def)

lemma basis4_nth: "i < 4 \<Longrightarrow> basis_vector 4 i ! i = 1"
  by (simp add: basis_vector_def)

lemma ilog2_4: "ilog2 4 = 2"
  by (simp add: ilog2.simps)

text \<open>A basis vector has norm 1, and dividing by 1 changes nothing: no operation rounds.\<close>

lemma rescale_basis_complex:
  "i < 4 \<Longrightarrow> rescale exact_complex (basis_vector 4 i) = basis_vector 4 i"
  by (auto dest!: less4_cases simp: basis4 rescale_def exact_complex_def)

lemma rescale_basis_float:
  "i < 4 \<Longrightarrow> rescale exact_float (basis_vector 4 i) = basis_vector 4 i"
  by (auto dest!: less4_cases simp: basis4 rescale_def exact_float_def)

lemma term_indices_basis_complex:
  "i < 4 \<Longrightarrow> term_indices exact_complex (basis_vector 4 i) = [i]"
  unfolding term_indices_def
  by (auto dest!: less4_cases simp: rescale_basis_complex)
     (simp_all add: basis4 upt4 exact_complex_def)

lemma term_indices_basis_float:
  "i < 4 \<Longrightarrow> term_indices exact_float (basis_vector 4 i) = [i]"
  unfolding term_indices_def
  by (auto dest!: less4_cases simp: rescale_basis_float)
     (simp_all add: basis4 upt4 exact_float_def)

lemma format_one_float: "format_3f exact_float 1 = S ''1.000''"
  by (simp add: exact_float_def string_eval float_eval)

lemma label2: "i < 4 \<Longrightarrow> format_0b 2 i = S ([''00'', ''01'', ''10'', ''11''] ! i)"
  by (auto dest!: less4_cases simp: string_eval)

text \<open>
  C3, as the claim states it, fails: the amplitude of a \<^verbatim>\<open>complex128\<close> array is
  formatted by Python's complex format, whose imaginary unit is \<^verbatim>\<open>j\<close>, and the
  amplitude of a \<^verbatim>\<open>float64\<close> array has no imaginary part at all.  On \<open>e\<^sub>0\<close> neither
  array gives \<^verbatim>\<open>1.000+0.000i|00\<close> followed by the closing bracket.
\<close>

theorem basis_state_not_i:
  "array_to_dirac_notation exact_complex (basis_vector 4 0)
     \<noteq> Inr (S ''1.000+0.000i|00'' @ [ket]) \<and>
   array_to_dirac_notation exact_float (basis_vector 4 0)
     \<noteq> Inr (S ''1.000+0.000i|00'' @ [ket])"
proof -
  have "array_to_dirac_notation exact_complex (basis_vector 4 0)
          = Inr (S ''1.000+0.000j|00'' @ [ket])"
    and "array_to_dirac_notation exact_float (basis_vector 4 0) = Inr (S ''1.000|00'' @ [ket])"
    by (simp_all add: dirac_notation_terms [OF basis4_ne] term_indices_basis_complex
          term_indices_basis_float rescale_basis_complex rescale_basis_float basis4_nth
          format_one_complex format_one_float label2 length_basis ilog2_4 S_def)
  then show ?thesis by (simp add: S_def ket_def)
qed

text \<open>
  C3, amended.  For every \<open>i\<close> in \<open>{0, 1, 2, 3}\<close> the function maps the basis vector
  \<open>e\<^sub>i\<close> of length 4 to \<^verbatim>\<open>1.000+0.000j|b\<close> and the closing bracket when the array is
  complex, and to \<^verbatim>\<open>1.000|b\<close> and the closing bracket when it is real, where \<open>b\<close>
  is the two-digit binary representation of \<open>i\<close>.
\<close>

theorem basis_state_notation:
  assumes "i < 4"
  shows "array_to_dirac_notation exact_complex (basis_vector 4 i) =
           Inr (S ''1.000+0.000j|'' @ S ([''00'', ''01'', ''10'', ''11''] ! i) @ [ket]) \<and>
         array_to_dirac_notation exact_float (basis_vector 4 i) =
           Inr (S ''1.000|'' @ S ([''00'', ''01'', ''10'', ''11''] ! i) @ [ket])"
  using assms
  by (simp add: dirac_notation_terms [OF basis4_ne] term_indices_basis_complex
        term_indices_basis_float rescale_basis_complex rescale_basis_float basis4_nth
        format_one_complex format_one_float label2 length_basis ilog2_4 S_def)

theorem basis_state_notation_witness:
  "array_to_dirac_notation exact_complex (basis_vector 4 2)
     = Inr (S ''1.000+0.000j|10'' @ [ket]) \<and>
   array_to_dirac_notation exact_float (basis_vector 4 2) = Inr (S ''1.000|10'' @ [ket])"
  using basis_state_notation [of 2] by (simp add: S_def)

section \<open>The column matrix\<close>

lemma take1_drop: "i < length xs \<Longrightarrow> take (Suc 0) (drop i xs) = [xs ! i]"
  by (simp add: take_Suc_conv_app_nth)

lemma column_rows:
  "map (\<lambda>i. take 1 (drop (i * 1) xs)) [0..<length xs] = map (\<lambda>x. [x]) xs"
  by (rule nth_equalityI) (simp_all add: take1_drop)

lemma matrix_representation_column:
  "array_to_matrix_representation xs = Inr (map (\<lambda>x. [x]) xs)"
  by (simp add: array_to_matrix_representation_def np_reshape_def column_rows [simplified])

text \<open>
  C6.  For a one-dimensional input of length \<open>L\<close> the reshape succeeds and returns \<open>L\<close>
  rows of one element each, row \<open>i\<close> holding element \<open>i\<close> of the input, so that
  reading the matrix row by row gives the input back; on \<open>[a, b, c]\<close> the result is
  \<open>[[a], [b], [c]]\<close>.
\<close>

theorem column_matrix_shape_and_values:
  "(\<exists>m. array_to_matrix_representation xs = Inr m \<and> length m = length xs \<and>
        (\<forall>i<length xs. m ! i = [xs ! i]) \<and> flatten m = xs) \<and>
   array_to_matrix_representation [a, b, c] = Inr [[a], [b], [c]]"
  by (simp add: matrix_representation_column flatten_def)

theorem column_matrix_shape_and_values_witness:
  "array_to_matrix_representation [10, 20, 30 :: int] = Inr [[10], [20], [30]]"
  using column_matrix_shape_and_values [of "[10, 20, 30]" 10 20 "30 :: int"]
  by (rule conjunct2)

section \<open>The payload of matrix_to_latex\<close>

lemma latex_rows_concat:
  "latex_rows str m code =
     code @ concat (map (\<lambda>row. join (S '' & '') (map str row) @ row_terminator) m)"
  by (induction m arbitrary: code) simp_all

lemma payload_empty: "matrix_to_latex str_int [] [] = Math (opening_bracket @ closing_bracket)"
  by (simp add: matrix_to_latex_def)

lemma payload_one:
  "matrix_to_latex str_int [[1]] [] =
     Math (opening_bracket @ S ''1 '' @ [backslash, backslash, newline] @ closing_bracket)"
  by (simp add: matrix_to_latex_def row_terminator_def str_int_def string_eval)

lemma spaces_brackets: "count_list (opening_bracket @ closing_bracket) 32 = 0"
  by (simp add: opening_bracket_def closing_bracket_def S_def backslash_def newline_def)

lemma spaces_one:
  "count_list (opening_bracket @ S ''1 '' @ [backslash, backslash, newline] @ closing_bracket) 32
     = 1"
  by (simp add: opening_bracket_def closing_bracket_def S_def backslash_def newline_def)

text \<open>
  Whatever the two brackets are, a terminator without a space cannot account for the
  payloads of the empty matrix and of the matrix \<open>[[1]]\<close>: the first has no space, the
  second has one.
\<close>

lemma no_bare_terminator:
  assumes "count_list t 32 = 0"
  shows "\<not> (\<exists>ob cb. \<forall>m prefix.
            matrix_to_latex str_int m prefix = Math (spec_payload ob t cb str_int m prefix))"
proof
  assume "\<exists>ob cb. \<forall>m prefix.
            matrix_to_latex str_int m prefix = Math (spec_payload ob t cb str_int m prefix)"
  then obtain ob cb where eq: "\<And>m prefix.
      matrix_to_latex str_int m prefix = Math (spec_payload ob t cb str_int m prefix)"
    by blast
  from eq [of "[]" "[]"] have "opening_bracket @ closing_bracket = ob @ cb"
    by (simp add: payload_empty spec_payload_def)
  then have "count_list (ob @ cb) 32 = 0"
    using spaces_brackets by simp
  then have z: "count_list ob 32 = 0" "count_list cb 32 = 0" by simp_all
  from eq [of "[[1]]" "[]"]
  have "opening_bracket @ S ''1 '' @ [backslash, backslash, newline] @ closing_bracket
          = ob @ str_int 1 @ t @ cb"
    by (simp add: payload_one spec_payload_def)
  then have "count_list (ob @ str_int 1 @ t @ cb) 32 = 1"
    using spaces_one by simp
  with z assms show False
    by (simp add: str_int_def string_eval)
qed

text \<open>
  C7, as the claim states it, fails: the payload is not the rows followed by the bare
  terminator of two backslashes (nor by the four backslashes of the escaped spelling),
  for any choice of the opening and the closing bracket.
\<close>

theorem payload_terminator_is_not_bare:
  "\<not> (\<exists>ob cb. \<forall>m prefix. matrix_to_latex str_int m prefix
           = Math (spec_payload ob [backslash, backslash] cb str_int m prefix)) \<and>
   \<not> (\<exists>ob cb. \<forall>m prefix. matrix_to_latex str_int m prefix
           = Math (spec_payload ob [backslash, backslash, backslash, backslash] cb
                     str_int m prefix))"
  by (simp add: no_bare_terminator backslash_def del: not_ex)

text \<open>
  C7, amended.  For every matrix and every prefix (the empty string when the argument is
  left out) the payload is the prefix, the opening bracket \<^verbatim>\<open>\begin{bmatrix}\<close> with a
  newline, then for each row in order its elements, converted by \<^verbatim>\<open>str\<close> and joined by
  \<^verbatim>\<open>" & "\<close>, followed by a space, two backslashes and a newline, then the closing
  bracket \<^verbatim>\<open>\end{bmatrix}\<close>.
\<close>

theorem matrix_to_latex_payload:
  "matrix_to_latex str m prefix =
     Math (spec_payload opening_bracket row_terminator closing_bracket str m prefix) \<and>
   matrix_to_latex_default str m = matrix_to_latex str m [] \<and>
   opening_bracket = [backslash] @ S ''begin{bmatrix}'' @ [newline] \<and>
   row_terminator = S '' '' @ [backslash, backslash] @ [newline] \<and>
   closing_bracket = [backslash] @ S ''end{bmatrix}''"
  by (simp add: matrix_to_latex_def matrix_to_latex_default_def latex_rows_concat
        spec_payload_def opening_bracket_def row_terminator_def closing_bracket_def)

theorem matrix_to_latex_payload_witness:
  "matrix_to_latex str_int [[1, 2], [3, - 4]] (S ''A='') =
     Math (S ''A='' @ [backslash] @ S ''begin{bmatrix}'' @ [newline]
           @ S ''1 & 2 '' @ [backslash, backslash, newline]
           @ S ''3 & -4 '' @ [backslash, backslash, newline]
           @ [backslash] @ S ''end{bmatrix}'')"
  using matrix_to_latex_payload [of str_int "[[1, 2], [3, - 4]]" "S ''A=''"]
  by (simp add: spec_payload_def str_int_def string_eval)

section \<open>The labels of a complex matrix\<close>

lemma vectorize_shape:
  "concat m \<noteq> [] \<Longrightarrow>
     \<exists>out. np_vectorize f m = Inr out \<and> length out = length m \<and>
       (\<forall>r<length m. length (out ! r) = length (m ! r) \<and>
          (\<forall>c<length (m ! r). out ! r ! c = f (m ! r ! c)))"
  by (simp add: np_vectorize_def)

lemma label_example:
  "format_complex_number 0 = S ''0''"
  "format_complex_number (Complex 1 2) = S ''1.0000 + 2.0000i''"
  "format_complex_number (Complex 3 (- 4)) = S ''3.0000 - 4.0000I''"
  "format_complex_number (Complex 0 5) = S ''5.0000i''"
  by (simp_all add: format_complex_number_def string_eval float_eval)

text \<open>A matrix without elements raises, whatever its shape.\<close>

lemma no_element_raises:
  "concat m = [] \<Longrightarrow> complex_matrix_to_string m = Inl ValueError"
  by (simp add: complex_matrix_to_string_def np_vectorize_def)

text \<open>
  C2, as the claim states it, fails on a matrix without elements (shape \<open>(0, n)\<close> or
  \<open>(n, 0)\<close>): \<^verbatim>\<open>np.vectorize\<close> raises \<^verbatim>\<open>ValueError\<close> and no matrix is returned.
\<close>

theorem empty_matrix_raises:
  "complex_matrix_to_string [] = Inl ValueError \<and>
   complex_matrix_to_string [[], []] = Inl ValueError"
  by (simp add: complex_matrix_to_string_def np_vectorize_def)

text \<open>
  C2, amended.  For every matrix of complex numbers with at least one element the
  function returns a matrix of the same shape whose entries are the labels of the
  entries of the input.  The label is \<^verbatim>\<open>0\<close> when both parts are zero; else the imaginary
  part with four decimals and \<^verbatim>\<open>i\<close> when the real part is zero; else the real part with
  four decimals when the imaginary part is zero; else both parts joined by \<^verbatim>\<open>" + "\<close> and
  ended by \<^verbatim>\<open>i\<close> when the imaginary part is positive, and the real part, \<^verbatim>\<open>" - "\<close>, the
  negated imaginary part and a capital \<^verbatim>\<open>I\<close> when it is negative.  The matrix of the
  specification's example is mapped as the specification says.
\<close>

theorem complex_labels:
  "(concat m \<noteq> [] \<longrightarrow>
      (\<exists>out. complex_matrix_to_string m = Inr out \<and> length out = length m \<and>
         (\<forall>r<length m. length (out ! r) = length (m ! r) \<and>
            (\<forall>c<length (m ! r). out ! r ! c = format_complex_number (m ! r ! c))))) \<and>
   (Re x = 0 \<and> Im x = 0 \<longrightarrow> format_complex_number x = S ''0'') \<and>
   (Re x = 0 \<and> Im x \<noteq> 0 \<longrightarrow> format_complex_number x = format_f False 4 (Im x) @ S ''i'') \<and>
   (Re x \<noteq> 0 \<and> Im x = 0 \<longrightarrow> format_complex_number x = format_f False 4 (Re x)) \<and>
   (Re x \<noteq> 0 \<and> 0 < Im x \<longrightarrow>
      format_complex_number x
        = format_f False 4 (Re x) @ S '' + '' @ format_f False 4 (Im x) @ S ''i'') \<and>
   (Re x \<noteq> 0 \<and> Im x < 0 \<longrightarrow>
      format_complex_number x
        = format_f False 4 (Re x) @ S '' - '' @ format_f False 4 (- Im x) @ S ''I'') \<and>
   complex_matrix_to_string [[0, Complex 1 2], [Complex 3 (- 4), Complex 0 5]]
     = Inr [[S ''0'', S ''1.0000 + 2.0000i''], [S ''3.0000 - 4.0000I'', S ''5.0000i'']]"
proof -
  have "concat m \<noteq> [] \<longrightarrow>
      (\<exists>out. complex_matrix_to_string m = Inr out \<and> length out = length m \<and>
         (\<forall>r<length m. length (out ! r) = length (m ! r) \<and>
            (\<forall>c<length (m ! r). out ! r ! c = format_complex_number (m ! r ! c))))"
    unfolding complex_matrix_to_string_def using vectorize_shape [of m] by blast
  moreover have "complex_matrix_to_string [[0, Complex 1 2], [Complex 3 (- 4), Complex 0 5]]
     = Inr [[S ''0'', S ''1.0000 + 2.0000i''], [S ''3.0000 - 4.0000I'', S ''5.0000i'']]"
    by (simp add: complex_matrix_to_string_def np_vectorize_def label_example)
  ultimately show ?thesis
    by (simp add: format_complex_number_def)
qed

theorem complex_labels_witness:
  "concat [[0, Complex 1 2], [Complex 3 (- 4), Complex 0 5]] \<noteq> [] \<and>
   complex_matrix_to_string [[0, Complex 1 2], [Complex 3 (- 4), Complex 0 5]]
     = Inr [[S ''0'', S ''1.0000 + 2.0000i''], [S ''3.0000 - 4.0000I'', S ''5.0000i'']] \<and>
   format_complex_number (Complex 3 (- 4))
     = format_f False 4 3 @ S '' - '' @ format_f False 4 4 @ S ''I''"
  using complex_labels [of "[[0, Complex 1 2], [Complex 3 (- 4), Complex 0 5]]" "Complex 3 (- 4)"]
  by simp

section \<open>The caller's array\<close>

text \<open>The store-passing functions return what the functions on values return.\<close>

lemma dirac_notation_st_eq:
  "array_to_dirac_notation_st np s array =
     (s\<lparr>cells := (cells s)(fresh s := rescale np (contents s array)), fresh := Suc (fresh s)\<rparr>,
      array_to_dirac_notation np (contents s array))"
  by (simp add: array_to_dirac_notation_st_def array_to_dirac_notation_def new_array_def
        contents_def Let_def cong: sum.case_cong)

lemma column_bmatrix_st_eq:
  "column_bmatrix_st str s m =
     (s\<lparr>cells := (cells s)(fresh s := contents s m), fresh := Suc (fresh s)\<rparr>,
      column_bmatrix str (map (\<lambda>x. [x]) (contents s m)))"
  by (simp add: column_bmatrix_st_def flatten_st_def new_array_def contents_def
        column_bmatrix_def flatten_def comp_def)

lemma dirac_latex_st_result:
  "snd (array_to_dirac_latex_st np s array) = array_to_dirac_latex np (contents s array)"
  by (simp add: array_to_dirac_latex_st_def array_to_dirac_latex_def dirac_notation_st_eq
        split: sum.splits)

lemma matrix_latex_st_result:
  "snd (array_to_matrix_latex_st str s array) = array_to_matrix_latex str (contents s array)"
  by (simp add: array_to_matrix_latex_st_def array_to_matrix_representation_st_def
        array_to_matrix_latex_def matrix_representation_column column_bmatrix_st_eq contents_def)

lemma dirac_and_matrix_latex_st_result:
  assumes "base array < fresh s"
  shows "snd (array_to_dirac_and_matrix_latex_st np str s array)
           = array_to_dirac_and_matrix_latex np str (contents s array)"
  using assms
  by (simp add: array_to_dirac_and_matrix_latex_st_def array_to_matrix_representation_st_def
        array_to_dirac_and_matrix_latex_def matrix_representation_column column_bmatrix_st_eq
        dirac_notation_st_eq contents_def Let_def split: sum.splits)

lemma dirac_latex_st_store:
  "fst (array_to_dirac_latex_st np s array) = fst (array_to_dirac_notation_st np s array)"
  by (simp add: array_to_dirac_latex_st_def dirac_notation_st_eq split: sum.splits)

lemma matrix_latex_st_store:
  "fst (array_to_matrix_latex_st str s array) =
     s\<lparr>cells := (cells s)(fresh s := contents s array), fresh := Suc (fresh s)\<rparr>"
  by (simp add: array_to_matrix_latex_st_def array_to_matrix_representation_st_def
        column_bmatrix_st_eq contents_def)

lemma dirac_and_matrix_latex_st_store:
  "cells (fst (array_to_dirac_and_matrix_latex_st np str s array)) =
     (cells s)(fresh s := contents s array,
               Suc (fresh s) := rescale np (contents s array))"
  by (simp add: array_to_dirac_and_matrix_latex_st_def array_to_matrix_representation_st_def
        column_bmatrix_st_eq dirac_notation_st_eq contents_def Let_def split: sum.splits)

text \<open>
  C8.  A call of any of the four functions on an array that the caller holds leaves
  every buffer that existed before the call as it was, the buffer of the input array
  among them: the functions only allocate.  The rescaled amplitudes of
  \<^verbatim>\<open>array_to_dirac_notation\<close> are in a new buffer.
\<close>

theorem input_array_not_mutated:
  assumes "base array < fresh s"
  shows "(\<forall>a<fresh s. cells (fst (array_to_dirac_notation_st np s array)) a = cells s a) \<and>
         (\<forall>a<fresh s. cells (fst (array_to_dirac_latex_st np s array)) a = cells s a) \<and>
         (\<forall>a<fresh s. cells (fst (array_to_matrix_latex_st str s array)) a = cells s a) \<and>
         (\<forall>a<fresh s. cells (fst (array_to_dirac_and_matrix_latex_st np str s array)) a
            = cells s a) \<and>
         contents (fst (array_to_dirac_notation_st np s array)) array = contents s array \<and>
         contents (fst (array_to_dirac_latex_st np s array)) array = contents s array \<and>
         contents (fst (array_to_matrix_latex_st str s array)) array = contents s array \<and>
         contents (fst (array_to_dirac_and_matrix_latex_st np str s array)) array
           = contents s array \<and>
         cells (fst (array_to_dirac_notation_st np s array)) (fresh s)
           = rescale np (contents s array)"
  using assms
  by (simp add: dirac_latex_st_store matrix_latex_st_store dirac_and_matrix_latex_st_store
        dirac_notation_st_eq contents_def)

text \<open>
  A store with the amplitudes \<open>(3, 0, 0, 4i)\<close> at address 0: after the calls they are
  still there, and the rescaled amplitudes are at address 1.
\<close>

theorem input_array_not_mutated_witness:
  "contents (fst (array_to_dirac_and_matrix_latex_st exact_complex (format_complex 3)
       (store_of [3, 0, 0, Complex 0 4]) (array_at0 4))) (array_at0 4)
     = [3, 0, 0, Complex 0 4] \<and>
   contents (fst (array_to_dirac_notation_st exact_complex
       (store_of [3, 0, 0, Complex 0 4]) (array_at0 4))) (array_at0 4)
     = [3, 0, 0, Complex 0 4] \<and>
   cells (fst (array_to_dirac_notation_st exact_complex
       (store_of [3, 0, 0, Complex 0 4]) (array_at0 4))) 1
     = [3 / 5, 0, 0, Complex 0 (4 / 5)]"
proof -
  have valid: "base (array_at0 4) < fresh (store_of [3, 0, 0, Complex 0 4])"
    by (simp add: array_at0_def store_of_def)
  have c: "contents (store_of [3, 0, 0, Complex 0 4]) (array_at0 4) = [3, 0, 0, Complex 0 4]"
    by (simp add: contents_def array_at0_def store_of_def)
  have f: "fresh (store_of [3, 0, 0, Complex 0 4]) = 1"
    by (simp add: store_of_def)
  show ?thesis
    using input_array_not_mutated [OF valid, of exact_complex "format_complex 3"]
    by (simp add: c f rescale_ex)
qed

section \<open>The magnitude threshold and the rescaling, with rounding\<close>

lemma exact_norm_sq:
  "(linalg_norm exact_complex xs)\<^sup>2 = (\<Sum>x\<leftarrow>xs. (cmod x)\<^sup>2)"
proof -
  have "0 \<le> (\<Sum>x\<leftarrow>xs. (Re x)\<^sup>2 + (Im x)\<^sup>2)"
    by (rule sum_list_nonneg) auto
  then show ?thesis by (simp add: exact_complex_def cmod_power2)
qed

lemma exact_norm_nonneg: "0 \<le> linalg_norm exact_complex xs"
proof -
  have "0 \<le> (\<Sum>x\<leftarrow>xs. (Re x)\<^sup>2 + (Im x)\<^sup>2)"
    by (rule sum_list_nonneg) auto
  then show ?thesis by (simp add: exact_complex_def)
qed

lemma sum_sq_split:
  "k < length xs \<Longrightarrow>
   (\<Sum>x\<leftarrow>xs. (cmod x)\<^sup>2) = (cmod (xs ! k))\<^sup>2 + (\<Sum>x\<leftarrow>xs[k := 0]. (cmod x)\<^sup>2)"
proof (induction xs arbitrary: k)
  case Nil
  then show ?case by simp
next
  case (Cons a xs)
  then show ?case by (cases k) simp_all
qed

lemma exact_norm_split:
  "k < length xs \<Longrightarrow>
   (linalg_norm exact_complex xs)\<^sup>2
     = (cmod (xs ! k))\<^sup>2 + (linalg_norm exact_complex (xs[k := 0]))\<^sup>2"
  by (simp only: exact_norm_sq sum_sq_split)

text \<open>With one small amplitude beside a unit vector the norm lies between 1 and 2.\<close>

lemma exact_norm_bounds:
  assumes "k < length xs" "linalg_norm exact_complex (xs[k := 0]) = 1" "cmod (xs ! k) \<le> 1"
  shows "1 \<le> linalg_norm exact_complex xs" "linalg_norm exact_complex xs \<le> 2"
proof -
  let ?N = "linalg_norm exact_complex xs"
  have sq: "?N\<^sup>2 = (cmod (xs ! k))\<^sup>2 + 1"
    using exact_norm_split [OF assms(1)] assms(2) by simp
  have "0 \<le> cmod (xs ! k)" by simp
  with assms(3) have "(cmod (xs ! k))\<^sup>2 \<le> 1" by (simp add: power_le_one)
  with sq have up: "?N\<^sup>2 \<le> 2\<^sup>2" by simp
  from sq have lo: "1\<^sup>2 \<le> ?N\<^sup>2" by simp
  from lo show "1 \<le> ?N" using exact_norm_nonneg [of xs] by (rule power2_le_imp_le)
  from up show "?N \<le> 2" by (rule power2_le_imp_le) simp
qed


text \<open>
  The computed magnitude of a rescaled amplitude, when the norm, the division and the
  magnitude are each accurate to one part in a hundred: between 0.48 and 1.04 times the
  magnitude of the amplitude.
\<close>

lemma magnitude_bounds:
  fixes N r a \<epsilon> :: real and x q :: complex
  assumes N: "1 \<le> N" "N \<le> 2" and e: "0 \<le> \<epsilon>" "\<epsilon> \<le> 1 / 100"
    and r: "\<bar>r - N\<bar> \<le> \<epsilon> * N"
    and q: "cmod (q - x / of_real r) \<le> \<epsilon> * cmod (x / of_real r)"
    and a: "\<bar>a - cmod q\<bar> \<le> \<epsilon> * cmod q"
  shows "a \<le> 26 / 25 * cmod x" and "12 / 25 * cmod x \<le> a"
proof -
  let ?m = "cmod x"
  let ?d = "?m / r"
  from e N have "\<epsilon> * N \<le> 1 / 100 * N" by (intro mult_right_mono) simp_all
  with r N have rlo: "99 / 100 \<le> r" and rhi: "r \<le> 101 / 50" by linarith+
  then have rpos: "0 < r" by simp
  then have d: "cmod (x / of_real r) = ?d" by (simp add: norm_divide)
  have dnn: "0 \<le> ?d" using rpos by simp
  have "?d \<le> ?m / (99 / 100)"
    using rlo by (intro divide_left_mono) simp_all
  then have dhi: "?d \<le> 100 / 99 * ?m" by (simp add: field_simps)
  have "?m / (101 / 50) \<le> ?d"
    using rhi rpos by (intro divide_left_mono) simp_all
  then have dlo: "50 / 101 * ?m \<le> ?d" by (simp add: field_simps)
  from e dnn have ed: "\<epsilon> * ?d \<le> 1 / 100 * ?d" by (intro mult_right_mono) simp_all
  have "cmod q \<le> cmod (q - x / of_real r) + cmod (x / of_real r)"
    using norm_triangle_ineq [of "q - x / of_real r" "x / of_real r"] by simp
  with q [unfolded d] d ed have qhi: "cmod q \<le> 101 / 100 * ?d" by linarith
  have "cmod (x / of_real r) \<le> cmod q + cmod (q - x / of_real r)"
    using norm_triangle_ineq [of q "x / of_real r - q"] by (simp add: norm_minus_commute)
  with q [unfolded d] d ed have qlo: "99 / 100 * ?d \<le> cmod q" by linarith
  from e have eq: "\<epsilon> * cmod q \<le> 1 / 100 * cmod q" by (intro mult_right_mono) simp_all
  from a eq have ahi: "a \<le> 101 / 100 * cmod q" and alo: "99 / 100 * cmod q \<le> a" by linarith+
  have mnn: "0 \<le> ?m" by simp
  from ahi qhi dhi mnn show "a \<le> 26 / 25 * ?m" by linarith
  from alo qlo dlo mnn show "12 / 25 * ?m \<le> a" by linarith
qed

lemma term_index_iff:
  "k \<in> set (term_indices np xs) \<longleftrightarrow>
     k < length xs \<and> greater_1e_10 np (absolute np (rescale np xs ! k))"
  by (auto simp: term_indices_def)

lemma rescale_nth:
  "k < length xs \<Longrightarrow> rescale np xs ! k = true_divide np (xs ! k) (linalg_norm np xs)"
  by (simp add: rescale_def)

text \<open>
  C4.  Take an input whose other amplitudes have norm 1 and primitives that are accurate
  to relative error \<open>\<epsilon> \<le> 1/100\<close> at this input.  The result is the join of the terms of
  the indices in \<open>term_indices\<close>; an index whose amplitude has magnitude \<open>10\<^sup>-\<^sup>1\<^sup>1\<close> is not
  among them, and an index whose amplitude has magnitude \<open>10\<^sup>-\<^sup>9\<close> is.
\<close>

theorem negligibility_filter:
  assumes k: "k < length xs"
    and unit: "linalg_norm exact_complex (xs[k := 0]) = 1"
    and e: "0 \<le> \<epsilon>" "\<epsilon> \<le> 1 / 100"
    and nacc: "norm_accurate \<epsilon> np xs"
    and dacc: "divide_accurate \<epsilon> np (xs ! k) (linalg_norm np xs)"
    and tacc: "test_accurate \<epsilon> np (rescale np xs ! k)"
  shows "array_to_dirac_notation np xs =
           Inr (join (S '' + '') (map (padded_term np xs) (term_indices np xs))) \<and>
         (cmod (xs ! k) = 1 / 10 ^ 11 \<longrightarrow> k \<notin> set (term_indices np xs)) \<and>
         (cmod (xs ! k) = 1 / 10 ^ 9 \<longrightarrow> k \<in> set (term_indices np xs))"
proof -
  let ?q = "rescale np xs ! k"
  let ?a = "absolute np ?q"
  from k have ne: "xs \<noteq> []" by auto
  have out: "array_to_dirac_notation np xs =
           Inr (join (S '' + '') (map (padded_term np xs) (term_indices np xs)))"
    by (simp add: dirac_notation_terms [OF ne] padded_term_def format_0b_def
          floor_log2_ilog2 ne cong: map_cong)
  from tacc obtain t where a: "\<bar>?a - cmod ?q\<bar> \<le> \<epsilon> * cmod ?q"
    and t: "\<bar>t - 1 / 10 ^ 10\<bar> \<le> \<epsilon> / 10 ^ 10"
    and test: "greater_1e_10 np ?a \<longleftrightarrow> t < ?a"
    unfolding test_accurate_def by blast
  have tlo: "99 / 10 ^ 12 \<le> t" using t e by (simp add: abs_le_iff field_simps)
  have thi: "t \<le> 101 / 10 ^ 12" using t e by (simp add: abs_le_iff field_simps)
  from nacc have r: "\<bar>linalg_norm np xs - linalg_norm exact_complex xs\<bar>
                       \<le> \<epsilon> * linalg_norm exact_complex xs"
    by (simp add: norm_accurate_def)
  from dacc k have q: "cmod (?q - xs ! k / of_real (linalg_norm np xs))
                         \<le> \<epsilon> * cmod (xs ! k / of_real (linalg_norm np xs))"
    by (simp add: divide_accurate_def rescale_nth)
  have small: "k \<notin> set (term_indices np xs)" if m: "cmod (xs ! k) = 1 / 10 ^ 11"
  proof -
    from m have "cmod (xs ! k) \<le> 1" by simp
    from exact_norm_bounds [OF k unit this] e r q a
    have "?a \<le> 26 / 25 * cmod (xs ! k)" by (rule magnitude_bounds)
    with m tlo have "\<not> t < ?a" by simp
    with test show ?thesis by (simp add: term_index_iff)
  qed
  have large: "k \<in> set (term_indices np xs)" if m: "cmod (xs ! k) = 1 / 10 ^ 9"
  proof -
    from m have "cmod (xs ! k) \<le> 1" by simp
    from exact_norm_bounds [OF k unit this] e r q a
    have "12 / 25 * cmod (xs ! k) \<le> ?a" by (rule magnitude_bounds)
    with m thi have "t < ?a" by simp
    with test k show ?thesis by (simp add: term_index_iff)
  qed
  from out small large show ?thesis by blast
qed


text \<open>Exact arithmetic is accurate to relative error 0.\<close>

lemma exact_test_accurate: "test_accurate 0 exact_complex q"
  unfolding test_accurate_def
  by (rule exI [of _ "1 / 10 ^ 10"]) (simp add: exact_complex_def)

lemma exact_is_accurate:
  "norm_accurate 0 exact_complex xs" "divide_accurate 0 exact_complex x r"
  "test_accurate 0 exact_complex q"
  by (simp_all add: norm_accurate_def divide_accurate_def exact_test_accurate)
     (simp add: exact_complex_def)

theorem negligibility_filter_witness:
  "1 \<notin> set (term_indices exact_complex [1, 1 / 10 ^ 11]) \<and>
   1 \<in> set (term_indices exact_complex [1, 1 / 10 ^ 9])"
proof -
  have e: "(0::real) \<le> 0" "(0::real) \<le> 1 / 100" by simp_all
  have u1: "linalg_norm exact_complex ([1, 1 / 10 ^ 11][1 := 0]) = 1"
    and u2: "linalg_norm exact_complex ([1, 1 / 10 ^ 9][1 := 0]) = 1"
    by (simp_all add: exact_complex_def)
  have k1: "1 < length [1, 1 / 10 ^ 11 :: complex]" and k2: "1 < length [1, 1 / 10 ^ 9 :: complex]"
    by simp_all
  have m1: "cmod ([1, 1 / 10 ^ 11] ! 1) = 1 / 10 ^ 11" and m2: "cmod ([1, 1 / 10 ^ 9] ! 1) = 1 / 10 ^ 9"
    by (simp_all add: norm_divide norm_power)
  from negligibility_filter [OF k1 u1 e exact_is_accurate] m1
  have "1 \<notin> set (term_indices exact_complex [1, 1 / 10 ^ 11])" by blast
  moreover from negligibility_filter [OF k2 u2 e exact_is_accurate] m2
  have "1 \<in> set (term_indices exact_complex [1, 1 / 10 ^ 9])" by blast
  ultimately show ?thesis by simp
qed

text \<open>Dividing by a norm \<open>r\<close> close to 1 moves an amplitude by \<open>|1 - r| / r\<close> of its magnitude.\<close>

lemma quotient_change:
  fixes x :: complex and r :: real
  assumes "0 < r"
  shows "cmod (x / of_real r - x) = cmod x * \<bar>1 - r\<bar> / r"
proof -
  from assms have "x / of_real r - x = x * of_real ((1 - r) / r)"
    by (simp add: field_simps)
  then have "cmod (x / of_real r - x) = cmod x * \<bar>(1 - r) / r\<bar>"
    by (simp only: norm_mult norm_of_real)
  with assms show ?thesis by simp
qed

lemma rescaled_amplitude_change:
  fixes x q :: complex and r \<epsilon> :: real
  assumes e: "0 \<le> \<epsilon>" "\<epsilon> < 1"
    and r: "\<bar>r - 1\<bar> \<le> \<epsilon>"
    and q: "cmod (q - x / of_real r) \<le> \<epsilon> * cmod (x / of_real r)"
  shows "cmod (q - x) \<le> 2 * \<epsilon> / (1 - \<epsilon>) * cmod x"
proof -
  let ?m = "cmod x"
  from e r have rlo: "1 - \<epsilon> \<le> r" and rpos: "0 < r" by linarith+
  have d: "cmod (x / of_real r) = ?m / r" using rpos by (simp add: norm_divide)
  have "cmod (q - x) \<le> cmod (q - x / of_real r) + cmod (x / of_real r - x)"
    using norm_triangle_ineq [of "q - x / of_real r" "x / of_real r - x"] by simp
  also have "\<dots> \<le> \<epsilon> * (?m / r) + ?m * \<bar>1 - r\<bar> / r"
    using q by (simp add: d quotient_change [OF rpos])
  also have "\<dots> \<le> \<epsilon> * (?m / r) + ?m * \<epsilon> / r"
  proof -
    from r have "\<bar>1 - r\<bar> \<le> \<epsilon>" by linarith
    then have "?m * \<bar>1 - r\<bar> \<le> ?m * \<epsilon>" by (intro mult_left_mono) simp_all
    then have "?m * \<bar>1 - r\<bar> / r \<le> ?m * \<epsilon> / r" using rpos by (intro divide_right_mono) simp_all
    then show ?thesis by linarith
  qed
  also have "\<dots> = (2 * \<epsilon> * ?m) / r" by (simp add: field_simps)
  also have "\<dots> \<le> (2 * \<epsilon> * ?m) / (1 - \<epsilon>)"
    using e rlo by (intro divide_left_mono) simp_all
  finally show ?thesis by simp
qed

text \<open>
  C9.  For a vector of Euclidean norm 1 and primitives that are accurate to relative
  error \<open>\<epsilon> < 1\<close> at this vector, rescaling moves every amplitude by at most
  \<open>2\<epsilon> / (1 - \<epsilon>)\<close> of its magnitude; in exact arithmetic the rescaled vector is the
  vector itself, so rescaling is idempotent on it.
\<close>

theorem rescale_unit_norm:
  assumes unit: "linalg_norm exact_complex xs = 1"
    and e: "0 \<le> \<epsilon>" "\<epsilon> < 1"
    and nacc: "norm_accurate \<epsilon> np xs"
    and dacc: "\<forall>x \<in> set xs. divide_accurate \<epsilon> np x (linalg_norm np xs)"
  shows "(\<forall>k<length xs. cmod (rescale np xs ! k - xs ! k) \<le> 2 * \<epsilon> / (1 - \<epsilon>) * cmod (xs ! k)) \<and>
         rescale exact_complex xs = xs"
proof -
  from nacc unit have r: "\<bar>linalg_norm np xs - 1\<bar> \<le> \<epsilon>"
    by (simp add: norm_accurate_def)
  have "cmod (rescale np xs ! k - xs ! k) \<le> 2 * \<epsilon> / (1 - \<epsilon>) * cmod (xs ! k)"
    if k: "k < length xs" for k
  proof -
    from k dacc have "divide_accurate \<epsilon> np (xs ! k) (linalg_norm np xs)" by simp
    then have "cmod (rescale np xs ! k - xs ! k / of_real (linalg_norm np xs))
                 \<le> \<epsilon> * cmod (xs ! k / of_real (linalg_norm np xs))"
      using k by (simp add: divide_accurate_def rescale_nth)
    with e r show ?thesis by (rule rescaled_amplitude_change)
  qed
  moreover from unit have "rescale exact_complex xs = xs"
    by (simp add: rescale_def) (simp add: exact_complex_def)
  ultimately show ?thesis by blast
qed


text \<open>
  The vector \<open>(3/5, 4i/5)\<close> has norm 1.  With a norm that is computed one part in a
  thousand too large, its first amplitude moves by less than the bound.
\<close>

lemma unit_ex: "linalg_norm exact_complex [3 / 5, Complex 0 (4 / 5)] = 1"
  by (simp add: exact_complex_def power2_eq_square)

theorem rescale_unit_norm_witness:
  "cmod (rescale coarse_complex [3 / 5, Complex 0 (4 / 5)] ! 0 - 3 / 5)
     \<le> 2 * (1 / 1000) / (1 - 1 / 1000) * cmod (3 / 5) \<and>
   rescale exact_complex [3 / 5, Complex 0 (4 / 5)] = [3 / 5, Complex 0 (4 / 5)]"
proof -
  have e: "(0::real) \<le> 1 / 1000" "(1::real) / 1000 < 1" by simp_all
  have n: "norm_accurate (1 / 1000) coarse_complex [3 / 5, Complex 0 (4 / 5)]"
    by (simp add: norm_accurate_def coarse_complex_def unit_ex)
  have d: "\<forall>x \<in> set [3 / 5, Complex 0 (4 / 5)].
             divide_accurate (1 / 1000) coarse_complex x
               (linalg_norm coarse_complex [3 / 5, Complex 0 (4 / 5)])"
    by (simp add: divide_accurate_def coarse_complex_def exact_complex_def)
  from rescale_unit_norm [OF unit_ex e n d]
  have a: "\<forall>k<length [3 / 5, Complex 0 (4 / 5)].
             cmod (rescale coarse_complex [3 / 5, Complex 0 (4 / 5)] ! k
                     - [3 / 5, Complex 0 (4 / 5)] ! k)
               \<le> 2 * (1 / 1000) / (1 - 1 / 1000) * cmod ([3 / 5, Complex 0 (4 / 5)] ! k)"
    and b: "rescale exact_complex [3 / 5, Complex 0 (4 / 5)] = [3 / 5, Complex 0 (4 / 5)]"
    by blast+
  from a [rule_format, of 0] b show ?thesis by simp
qed

end
